theory Spec2Isabelle
  imports Main
begin

section \<open>Python values\<close>

text \<open>
  A Python \<open>str\<close> is modelled by its UTF-8 encoding, a \<open>string\<close> of bytes: equality,
  concatenation and the substring test of two \<open>str\<close> values agree with those of their
  encodings, and \<open>key.encode()\<close> is the identity.

  \<open>json\<close> holds the values \<open>json.loads\<close> can return. A Python \<open>float\<close> is kept as
  \<open>m * 2 ^ e\<close> or one of the three special values; \<open>JObj\<close> lists the items of a
  \<open>dict\<close> in insertion order, its keys distinct as a dict's keys are. \<open>JNull\<close> is \<open>None\<close>.
\<close>

datatype pyfloat = Float int int | PosInf | NegInf | NaN

datatype json =
    JNull
  | JBool bool
  | JInt int
  | JFloat pyfloat
  | JStr string
  | JList "json list"
  | JObj "(string \<times> json) list"

text \<open>
  The exceptions the modelled code can raise. \<open>JSONDecodeError\<close> (a \<open>ValueError\<close>),
  \<open>TypeError\<close>, \<open>KeyError\<close> and \<open>AttributeError\<close> are the interpreter's; none of them is
  an \<open>httpx.HTTPError\<close>.
\<close>

datatype exn =
    LuciConnectionException
  | LuciTokenException
  | JSONDecodeError
  | TypeError
  | KeyError
  | AttributeError

text \<open>
  Modelled from the spec: \<open>exceptions.py\<close> is not among the sources. The spec's taxonomy
  has the two dispatcher errors, ConnectionError and TokenError/AuthError, as the
  \<open>LuciError\<close>s that the sweep catches.
\<close>

definition is_LuciError :: "exn \<Rightarrow> bool" where
  "is_LuciError e = (e = LuciConnectionException \<or> e = LuciTokenException)"

fun starts_with :: "string \<Rightarrow> string \<Rightarrow> bool" where
  "starts_with [] s = True"
| "starts_with (k # ks) [] = False"
| "starts_with (k # ks) (c # s) = (k = c \<and> starts_with ks s)"

fun substring :: "string \<Rightarrow> string \<Rightarrow> bool" where
  "substring k [] = (k = [])"
| "substring k (c # s) = (starts_with k (c # s) \<or> substring k s)"

text \<open>\<open>key in data\<close> for a \<open>str\<close> key: membership of a dict's keys, of a list's
  elements, substring of a \<open>str\<close>; the other values are not iterable.\<close>

fun py_contains :: "string \<Rightarrow> json \<Rightarrow> exn + bool" where
  "py_contains k (JObj kvs) = Inr (k \<in> set (map fst kvs))"
| "py_contains k (JList xs) = Inr (JStr k \<in> set xs)"
| "py_contains k (JStr s) = Inr (substring k s)"
| "py_contains k JNull = Inl TypeError"
| "py_contains k (JBool b) = Inl TypeError"
| "py_contains k (JInt n) = Inl TypeError"
| "py_contains k (JFloat f) = Inl TypeError"

text \<open>\<open>data[key]\<close> for a \<open>str\<close> key: only a dict can be indexed by a \<open>str\<close>.\<close>

fun py_getitem :: "json \<Rightarrow> string \<Rightarrow> exn + json" where
  "py_getitem (JObj kvs) k = (case map_of kvs k of None \<Rightarrow> Inl KeyError | Some v \<Rightarrow> Inr v)"
| "py_getitem JNull k = Inl TypeError"
| "py_getitem (JBool b) k = Inl TypeError"
| "py_getitem (JInt n) k = Inl TypeError"
| "py_getitem (JFloat f) k = Inl TypeError"
| "py_getitem (JStr s) k = Inl TypeError"
| "py_getitem (JList xs) k = Inl TypeError"

fun float_gt0 :: "pyfloat \<Rightarrow> bool" where
  "float_gt0 (Float m e) = (0 < m)"
| "float_gt0 PosInf = True"
| "float_gt0 NegInf = False"
| "float_gt0 NaN = False"

text \<open>\<open>v > 0\<close>: numbers compare with \<open>0\<close> (\<open>True\<close> is \<open>1\<close>, \<open>False\<close> is \<open>0\<close>); for any
  other value Python 3 raises \<open>TypeError\<close>.\<close>

fun py_gt0 :: "json \<Rightarrow> exn + bool" where
  "py_gt0 (JInt n) = Inr (0 < n)"
| "py_gt0 (JBool b) = Inr b"
| "py_gt0 (JFloat f) = Inr (float_gt0 f)"
| "py_gt0 JNull = Inl TypeError"
| "py_gt0 (JStr s) = Inl TypeError"
| "py_gt0 (JList xs) = Inl TypeError"
| "py_gt0 (JObj kvs) = Inl TypeError"

fun float_nonzero :: "pyfloat \<Rightarrow> bool" where
  "float_nonzero (Float m e) = (m \<noteq> 0)"
| "float_nonzero PosInf = True"
| "float_nonzero NegInf = True"
| "float_nonzero NaN = True"

text \<open>Truth value of a Python value, as \<open>if action:\<close> tests it.\<close>

fun py_truthy :: "json \<Rightarrow> bool" where
  "py_truthy JNull = False"
| "py_truthy (JBool b) = b"
| "py_truthy (JInt n) = (n \<noteq> 0)"
| "py_truthy (JFloat f) = float_nonzero f"
| "py_truthy (JStr s) = (s \<noteq> [])"
| "py_truthy (JList xs) = (xs \<noteq> [])"
| "py_truthy (JObj kvs) = (kvs \<noteq> [])"

section \<open>The environment of the client\<close>

text \<open>
  A request as the client hands it to \<open>httpx\<close>: the URL, the form data of a POST, the
  timeout. The transport either raises \<open>httpx.HTTPError\<close> or returns a response;
  \<open>content\<close> is the body as \<open>json.loads\<close> sees it, text that does not parse
  (\<open>Malformed\<close>) or the value it decodes to.
\<close>

datatype request =
    GET string int
  | POST string "(string \<times> string) list" int

datatype body = Malformed | Decoded json

datatype outcome =
    HTTPError
  | Response (status_code: int) (content: body)

text \<open>
  What lies outside \<open>luci.py\<close> and \<open>self_check.py\<close> is a parameter:
  \<^item> \<open>router\<close>: the answer to a request, which may depend on the requests sent before;
  \<^item> \<open>py_str\<close>: the interpreter's \<open>str()\<close> of a value that is neither a \<open>str\<close> nor
    \<open>None\<close>, and \<open>py_str_method\<close>: its \<open>str()\<close> of the bound method of a given name;
  \<^item> \<open>hashlib_sha1\<close>: \<open>hashlib.sha1(bytes).hexdigest()\<close>;
  \<^item> the constants of \<open>const.py\<close>, which is not among the sources (\<open>CLIENT_URL\<close> as
    the function \<open>CLIENT_URL.format(ip=...)\<close>);
  \<^item> \<open>issue_tracker\<close>: the base URL the integration lookup returns, and
    \<open>quote_plus\<close>: \<open>urllib.parse.quote_plus\<close>.
\<close>

record env =
  router :: "request list \<Rightarrow> request \<Rightarrow> outcome"
  py_str :: "json \<Rightarrow> string"
  py_str_method :: "string \<Rightarrow> string"
  hashlib_sha1 :: "string \<Rightarrow> string"
  CLIENT_URL :: "string \<Rightarrow> string"
  CLIENT_USERNAME :: string
  CLIENT_LOGIN_TYPE :: json
  CLIENT_PUBLIC_KEY :: string
  NAME :: string
  issue_tracker :: string
  quote_plus :: "string \<Rightarrow> string"

text \<open>\<open>"{}".format(v)\<close> and \<open>str(v)\<close>: a \<open>str\<close> is itself, \<open>None\<close> is the text
  \<open>None\<close>.\<close>

definition py_format :: "env \<Rightarrow> json \<Rightarrow> string" where
  "py_format e v = (case v of JStr s \<Rightarrow> s | JNull \<Rightarrow> ''None'' | _ \<Rightarrow> py_str e v)"

section \<open>luci.py: the client\<close>

text \<open>
  The fields \<open>_ip\<close>, \<open>_password\<close>, \<open>_timeout\<close>, \<open>_token\<close>, \<open>_url\<close> of
  \<open>LuciClient\<close>. \<open>_token\<close> holds whatever \<open>data["token"]\<close> was at the last login, or
  \<open>None\<close>.
\<close>

record LuciClient =
  luci_ip :: string
  luci_password :: "string option"
  luci_timeout :: int
  luci_token :: json
  luci_url :: string

text \<open>The client together with what it has done to the world: the requests it has
  sent, oldest first, and the notifications created.\<close>

record state =
  self :: LuciClient
  sent :: "request list"
  notifications :: "(string \<times> string) list"

definition init :: "env \<Rightarrow> string \<Rightarrow> string option \<Rightarrow> int \<Rightarrow> LuciClient" where
  "init e ip password timeout =
     (let ip' = (if ip \<noteq> [] \<and> last ip = CHR ''/'' then butlast ip else ip)
      in \<lparr>luci_ip = ip', luci_password = password, luci_timeout = timeout, luci_token = JNull,
          luci_url = CLIENT_URL e ip'\<rparr>)"

definition sha1 :: "env \<Rightarrow> string \<Rightarrow> string" where
  "sha1 e key = hashlib_sha1 e key"

definition generate_password_hash :: "env \<Rightarrow> string \<Rightarrow> string \<Rightarrow> string" where
  "generate_password_hash e nonce password =
     sha1 e (nonce @ sha1 e (password @ CLIENT_PUBLIC_KEY e))"

definition send :: "env \<Rightarrow> request \<Rightarrow> state \<Rightarrow> outcome \<times> state" where
  "send e req s = (router e (sent s) req, s\<lparr>sent := sent s @ [req]\<rparr>)"

text \<open>
  \<open>login\<close>, given the nonce \<open>generate_nonce\<close> returned. With \<open>_password\<close> still
  \<open>None\<close>, \<open>password + CLIENT_PUBLIC_KEY\<close> raises \<open>TypeError\<close> before anything is sent.
  Only \<open>HTTPError\<close> is caught; a body that does not parse leaves \<open>json.loads\<close> as
  \<open>JSONDecodeError\<close>.
\<close>

definition login_request :: "env \<Rightarrow> string \<Rightarrow> LuciClient \<Rightarrow> string \<Rightarrow> request" where
  "login_request e nonce c pw =
     POST (luci_url c @ ''/api/xqsystem/login'')
          [(''username'', CLIENT_USERNAME e),
           (''logtype'', py_format e (CLIENT_LOGIN_TYPE e)),
           (''password'', generate_password_hash e nonce pw),
           (''nonce'', nonce)]
          (luci_timeout c)"

definition login :: "env \<Rightarrow> string \<Rightarrow> state \<Rightarrow> (exn + json) \<times> state" where
  "login e nonce s =
     (case luci_password (self s) of
        None \<Rightarrow> (Inl TypeError, s)
      | Some pw \<Rightarrow>
         (case send e (login_request e nonce (self s) pw) s of
            (HTTPError, s') \<Rightarrow> (Inl LuciConnectionException, s')
          | (Response status Malformed, s') \<Rightarrow> (Inl JSONDecodeError, s')
          | (Response status (Decoded data), s') \<Rightarrow>
             (if status \<noteq> 200 then (Inl LuciTokenException, s')
              else case py_contains ''token'' data of
                     Inl x \<Rightarrow> (Inl x, s')
                   | Inr False \<Rightarrow> (Inl LuciTokenException, s')
                   | Inr True \<Rightarrow>
                      (case py_getitem data ''token'' of
                         Inl x \<Rightarrow> (Inl x, s')
                       | Inr t \<Rightarrow> (Inr data, s'\<lparr>self := (self s')\<lparr>luci_token := t\<rparr>\<rparr>)))))"

definition logout_url :: "env \<Rightarrow> LuciClient \<Rightarrow> string" where
  "logout_url e c = luci_url c @ ''/;stok='' @ py_format e (luci_token c) @ ''/web/logout''"

definition logout :: "env \<Rightarrow> state \<Rightarrow> (exn + unit) \<times> state" where
  "logout e s =
     (if luci_token (self s) = JNull then (Inr (), s)
      else case send e (GET (logout_url e (self s)) (luci_timeout (self s))) s of
             (HTTPError, s') \<Rightarrow> (Inr (), s')
           | (Response status b, s') \<Rightarrow> (Inr (), s'))"

definition get_url :: "env \<Rightarrow> LuciClient \<Rightarrow> string \<Rightarrow> bool \<Rightarrow> string" where
  "get_url e c path use_stok =
     luci_url c @ ''/'' @ (if use_stok then '';stok='' @ py_format e (luci_token c) @ ''/'' else '''')
       @ ''api/'' @ path"

definition get :: "env \<Rightarrow> string \<Rightarrow> bool \<Rightarrow> state \<Rightarrow> (exn + json) \<times> state" where
  "get e path use_stok s =
     (case send e (GET (get_url e (self s) path use_stok) (luci_timeout (self s))) s of
        (HTTPError, s') \<Rightarrow> (Inl LuciConnectionException, s')
      | (Response status Malformed, s') \<Rightarrow> (Inl JSONDecodeError, s')
      | (Response status (Decoded data), s') \<Rightarrow>
         (case py_contains ''code'' data of
            Inl x \<Rightarrow> (Inl x, s')
          | Inr False \<Rightarrow> (Inl LuciTokenException, s')
          | Inr True \<Rightarrow>
             (case py_getitem data ''code'' of
                Inl x \<Rightarrow> (Inl x, s')
              | Inr c \<Rightarrow>
                 (case py_gt0 c of
                    Inl x \<Rightarrow> (Inl x, s')
                  | Inr True \<Rightarrow> (Inl LuciTokenException, s')
                  | Inr False \<Rightarrow> (Inr data, s')))))"

subsection \<open>The endpoint methods\<close>

definition topo_graph :: "env \<Rightarrow> state \<Rightarrow> (exn + json) \<times> state" where
  "topo_graph e = get e ''misystem/topo_graph'' False"

definition init_info :: "env \<Rightarrow> state \<Rightarrow> (exn + json) \<times> state" where
  "init_info e = get e ''xqsystem/init_info'' True"

definition status :: "env \<Rightarrow> state \<Rightarrow> (exn + json) \<times> state" where
  "status e = get e ''misystem/status'' True"

definition new_status :: "env \<Rightarrow> state \<Rightarrow> (exn + json) \<times> state" where
  "new_status e = get e ''misystem/newstatus'' True"

definition mode :: "env \<Rightarrow> state \<Rightarrow> (exn + json) \<times> state" where
  "mode e = get e ''xqnetwork/mode'' True"

definition wifi_status :: "env \<Rightarrow> state \<Rightarrow> (exn + json) \<times> state" where
  "wifi_status e = get e ''xqnetwork/wifi_status'' True"

definition wifi_detail_all :: "env \<Rightarrow> state \<Rightarrow> (exn + json) \<times> state" where
  "wifi_detail_all e = get e ''xqnetwork/wifi_detail_all'' True"

definition wan_info :: "env \<Rightarrow> state \<Rightarrow> (exn + json) \<times> state" where
  "wan_info e = get e ''xqnetwork/wan_info'' True"

definition reboot :: "env \<Rightarrow> state \<Rightarrow> (exn + json) \<times> state" where
  "reboot e = get e ''xqsystem/reboot'' True"

definition led :: "env \<Rightarrow> json \<Rightarrow> state \<Rightarrow> (exn + json) \<times> state" where
  "led e st =
     get e (''misystem/led'' @ (if st \<noteq> JNull then ''?on='' @ py_format e st else '''')) True"

definition wifi_turn_on :: "env \<Rightarrow> json \<Rightarrow> state \<Rightarrow> (exn + json) \<times> state" where
  "wifi_turn_on e index = get e (''xqnetwork/wifi_up?index='' @ py_format e index) True"

definition wifi_turn_off :: "env \<Rightarrow> json \<Rightarrow> state \<Rightarrow> (exn + json) \<times> state" where
  "wifi_turn_off e index = get e (''xqnetwork/wifi_down?index='' @ py_format e index) True"

definition device_list :: "env \<Rightarrow> state \<Rightarrow> (exn + json) \<times> state" where
  "device_list e = get e ''misystem/devicelist'' True"

definition wifi_connect_devices :: "env \<Rightarrow> state \<Rightarrow> (exn + json) \<times> state" where
  "wifi_connect_devices e = get e ''xqnetwork/wifi_connect_devices'' True"

section \<open>self_check.py: the capability sweep\<close>

text \<open>The three status marks, as the UTF-8 bytes of U+1F7E2 (green circle), U+1F534 (red
  circle) and U+26AA (white circle).\<close>

definition GREEN :: string where
  "GREEN = [CHR 0xF0, CHR 0x9F, CHR 0x9F, CHR 0xA2]"

definition RED :: string where
  "RED = [CHR 0xF0, CHR 0x9F, CHR 0x94, CHR 0xB4]"

definition WHITE :: string where
  "WHITE = [CHR 0xE2, CHR 0x9A, CHR 0xAA]"

definition SELF_CHECK_METHODS :: "(string \<times> string) list" where
  "SELF_CHECK_METHODS =
     [(''xqsystem/login'', GREEN),
      (''xqsystem/init_info'', GREEN),
      (''misystem/status'', ''status''),
      (''xqnetwork/mode'', ''mode''),
      (''misystem/topo_graph'', ''topo_graph''),
      (''xqsystem/check_rom_update'', ''rom_update''),
      (''xqnetwork/wan_info'', ''wan_info''),
      (''misystem/led'', ''led''),
      (''xqnetwork/wifi_detail_all'', ''wifi_detail_all''),
      (''xqnetwork/wifi_diag_detail_all'', ''wifi_diag_detail_all''),
      (''xqnetwork/avaliable_channels'', ''avaliable_channels''),
      (''xqnetwork/wifi_connect_devices'', ''wifi_connect_devices''),
      (''misystem/devicelist'', ''device_list''),
      (''xqnetwork/wifiap_signal'', ''wifi_ap_signal''),
      (''misystem/newstatus'', ''new_status''),
      (''xqsystem/reboot'', WHITE),
      (''xqsystem/upgrade_rom'', WHITE),
      (''xqsystem/flash_permission'', WHITE),
      (''xqnetwork/set_wifi'', WHITE),
      (''xqnetwork/set_wifi_without_restart'', WHITE)]"

text \<open>
  What \<open>getattr(client, name)\<close> can give: a coroutine method that takes no argument,
  run by \<open>await action()\<close>, or a plain value, which \<open>if action:\<close> tests and which
  cannot be called. \<open>None\<close> of the option type is a missing attribute: \<open>getattr\<close>
  without a default raises \<open>AttributeError\<close>.
\<close>

datatype attr =
    Coroutine "state \<Rightarrow> (exn + json) \<times> state"
  | Data json

type_synonym pyobject = "string \<Rightarrow> attr option"

text \<open>
  The attributes of \<open>LuciClient\<close> as \<open>luci.py\<close> defines the class: its public coroutine
  methods that can be called with no argument (\<open>led\<close> with its default \<open>state=None\<close>).
  The class defines no \<open>ip\<close>, \<open>rom_update\<close>, \<open>wifi_diag_detail_all\<close>,
  \<open>avaliable_channels\<close> or \<open>wifi_ap_signal\<close>. The private fields, \<open>login\<close>,
  \<open>logout\<close>, the methods with a required parameter and the names inherited from
  \<open>object\<close> are left out of the table: no entry of \<open>SELF_CHECK_METHODS\<close> names one.
\<close>

definition LuciClient_getattr :: "env \<Rightarrow> pyobject" where
  "LuciClient_getattr e = map_of
     [(''topo_graph'', Coroutine (topo_graph e)),
      (''init_info'', Coroutine (init_info e)),
      (''status'', Coroutine (status e)),
      (''new_status'', Coroutine (new_status e)),
      (''mode'', Coroutine (mode e)),
      (''wifi_status'', Coroutine (wifi_status e)),
      (''wifi_detail_all'', Coroutine (wifi_detail_all e)),
      (''wan_info'', Coroutine (wan_info e)),
      (''reboot'', Coroutine (reboot e)),
      (''led'', Coroutine (led e JNull)),
      (''device_list'', Coroutine (device_list e)),
      (''wifi_connect_devices'', Coroutine (wifi_connect_devices e))]"

text \<open>\<open>data[code] = value\<close> on a dict kept in insertion order: a key already present
  keeps its place and takes the new value, a new key goes to the end.\<close>

fun dict_set :: "string \<Rightarrow> string \<Rightarrow> (string \<times> string) list \<Rightarrow> (string \<times> string) list" where
  "dict_set k v [] = [(k, v)]"
| "dict_set k v ((k', v') # d) = (if k' = k then (k, v) # d else (k', v') # dict_set k v d)"

definition is_sentinel :: "string \<Rightarrow> bool" where
  "is_sentinel method = (method \<in> set [GREEN, RED, WHITE])"

text \<open>
  The \<open>for\<close> loop of \<open>async_self_check\<close> over the rest of the catalog. A missing
  attribute raises out of the loop; a falsy attribute is passed over by \<open>if action:\<close>;
  calling a truthy value that is no method raises \<open>TypeError\<close>; only a \<open>LuciError\<close>
  of the awaited call is caught.
\<close>

fun self_check_loop ::
  "pyobject \<Rightarrow> (string \<times> string) list \<Rightarrow> (string \<times> string) list \<Rightarrow> state
     \<Rightarrow> (exn + (string \<times> string) list) \<times> state" where
  "self_check_loop client [] data s = (Inr data, s)"
| "self_check_loop client ((code, method) # rest) data s =
     (if is_sentinel method then self_check_loop client rest (dict_set code method data) s
      else case client method of
             None \<Rightarrow> (Inl AttributeError, s)
           | Some (Data v) \<Rightarrow>
               (if py_truthy v then (Inl TypeError, s)
                else self_check_loop client rest data s)
           | Some (Coroutine action) \<Rightarrow>
               (case action s of
                  (Inr r, s') \<Rightarrow> self_check_loop client rest (dict_set code GREEN data) s'
                | (Inl x, s') \<Rightarrow>
                    (if is_LuciError x
                     then self_check_loop client rest (dict_set code RED data) s'
                     else (Inl x, s'))))"

definition check_list :: "(string \<times> string) list \<Rightarrow> string" where
  "check_list data =
     ''Check list:'' @ concat (map (\<lambda>(method, value). ''\<newline> * '' @ method @ '': '' @ value) data)"

text \<open>\<open>f"{client.ip}"\<close> in the title.\<close>

definition client_ip :: "env \<Rightarrow> pyobject \<Rightarrow> exn + string" where
  "client_ip e client =
     (case client ''ip'' of
        None \<Rightarrow> Inl AttributeError
      | Some (Data v) \<Rightarrow> Inr (py_format e v)
      | Some (Coroutine action) \<Rightarrow> Inr (py_str_method e ''ip''))"

definition report :: "env \<Rightarrow> string \<Rightarrow> string \<Rightarrow> (string \<times> string) list \<Rightarrow> string" where
  \<open>report e ip model data =
     (let title = ''Router '' @ ip @ '' not supported.\<newline>\<newline>Model: '' @ model;
          message = check_list data;
          link = issue_tracker e @ ''/new?title='' @ quote_plus e (''Add supports '' @ model)
                   @ ''&body='' @ quote_plus e message
      in title @ ''\<newline>\<newline>'' @ message @ ''\<newline>\<newline>''
           @ ''<a href="'' @ link @ ''" target="_blank">''
           @ ''Create an issue with the data from this post to add support</a>'')\<close>

text \<open>\<open>self_check\<close> is \<open>async_self_check\<close> with the catalog as an argument;
  \<open>pn.async_create\<close> appends the message and its title \<open>NAME\<close> to the notifications.\<close>

definition self_check ::
  "env \<Rightarrow> pyobject \<Rightarrow> (string \<times> string) list \<Rightarrow> string \<Rightarrow> state \<Rightarrow> (exn + unit) \<times> state" where
  "self_check e client catalog model s =
     (case self_check_loop client catalog [] s of
        (Inl x, s') \<Rightarrow> (Inl x, s')
      | (Inr data, s') \<Rightarrow>
          (case client_ip e client of
             Inl x \<Rightarrow> (Inl x, s')
           | Inr ip \<Rightarrow>
               (Inr (), s'\<lparr>notifications := notifications s' @ [(report e ip model data, NAME e)]\<rparr>)))"

definition async_self_check :: "env \<Rightarrow> pyobject \<Rightarrow> string \<Rightarrow> state \<Rightarrow> (exn + unit) \<times> state" where
  "async_self_check e client model s = self_check e client SELF_CHECK_METHODS model s"

section \<open>Concrete inputs\<close>

text \<open>
  An environment for evaluating the client on concrete inputs: the router is the
  argument, the constants of \<open>const.py\<close> get sample values, and the interpreter's
  functions are stand-ins that render the login type \<open>2\<close> and are not consulted
  otherwise.
\<close>

definition test_env :: "(request list \<Rightarrow> request \<Rightarrow> outcome) \<Rightarrow> env" where
  "test_env r =
     \<lparr>router = r,
      py_str = (\<lambda>v. if v = JInt 2 then ''2'' else ''<value>''),
      py_str_method = (\<lambda>name. ''<bound method>''),
      hashlib_sha1 = (\<lambda>bytes. ''<sha1>''),
      CLIENT_URL = (\<lambda>ip. ''http://'' @ ip @ ''/cgi-bin/luci''),
      CLIENT_USERNAME = ''admin'',
      CLIENT_LOGIN_TYPE = JInt 2,
      CLIENT_PUBLIC_KEY = ''a2ffa5c9be07488bbb04a3a47d3c5f6a'',
      NAME = ''MiWifi'',
      issue_tracker = ''https://github.com/dmamontov/hass-miwifi/issues'',
      quote_plus = (\<lambda>text. text)\<rparr>"

text \<open>A router that gives the same outcome to every request.\<close>

definition always :: "outcome \<Rightarrow> request list \<Rightarrow> request \<Rightarrow> outcome" where
  "always out log req = out"

text \<open>A client constructed for \<open>192.168.31.1/\<close> with a password, holding the given
  token, that has sent nothing yet.\<close>

definition test_state :: "json \<Rightarrow> state" where
  "test_state tok =
     \<lparr>self = (init (test_env (always HTTPError)) ''192.168.31.1/'' (Some ''secret'') 5)
               \<lparr>luci_token := tok\<rparr>,
      sent = [], notifications = []\<rparr>"

definition ok_body :: json where
  "ok_body = JObj [(''code'', JInt 0)]"

text \<open>A router that is unreachable for \<open>xqnetwork/mode\<close> and answers everything else
  with \<open>{"code": 0}\<close>.\<close>

definition mode_down :: "request list \<Rightarrow> request \<Rightarrow> outcome" where
  "mode_down log req =
     (if req = GET ''http://192.168.31.1/cgi-bin/luci/;stok=tok/api/xqnetwork/mode'' 5
      then HTTPError else Response 200 (Decoded ok_body))"

text \<open>The entries of \<open>SELF_CHECK_METHODS\<close> up to \<open>topo_graph\<close>, without the second,
  and its first mutating entry.\<close>

definition short_catalog :: "(string \<times> string) list" where
  "short_catalog =
     [(''xqsystem/login'', GREEN),
      (''misystem/status'', ''status''),
      (''xqnetwork/mode'', ''mode''),
      (''misystem/topo_graph'', ''topo_graph''),
      (''xqsystem/reboot'', WHITE)]"

section \<open>Notions of the specification\<close>

text \<open>An application-level rejection: a decoded JSON object without a \<open>code\<close>, or
  whose \<open>code\<close> is a number greater than \<open>0\<close>.\<close>

definition rejected :: "json \<Rightarrow> bool" where
  "rejected data =
     (case data of
        JObj kvs \<Rightarrow>
          (case map_of kvs ''code'' of
             None \<Rightarrow> True
           | Some c \<Rightarrow> py_gt0 c = Inr True)
      | _ \<Rightarrow> False)"

text \<open>The values Python compares with \<open>0\<close>: \<open>int\<close>, \<open>float\<close> and \<open>bool\<close>.\<close>

definition is_number :: "json \<Rightarrow> bool" where
  "is_number v = (case v of JInt n \<Rightarrow> True | JFloat f \<Rightarrow> True | JBool b \<Rightarrow> True | _ \<Rightarrow> False)"

text \<open>The methods of the probeable (non-sentinel) entries, in catalog order.\<close>

definition probeable :: "(string \<times> string) list \<Rightarrow> string list" where
  "probeable catalog = filter (\<lambda>method. \<not> is_sentinel method) (map snd catalog)"

text \<open>The state one awaited call of the client's method leaves, started in \<open>s\<close>.\<close>

definition call :: "pyobject \<Rightarrow> state \<Rightarrow> string \<Rightarrow> state" where
  "call client s method =
     (case client method of Some (Coroutine action) \<Rightarrow> snd (action s) | _ \<Rightarrow> s)"

text \<open>A line of the check-list belongs to a catalog entry: it carries the entry's path,
  and the entry's own mark if that is a sentinel, else the Supported or the Unsupported
  mark.\<close>

definition line_of :: "string \<times> string \<Rightarrow> string \<times> string \<Rightarrow> bool" where
  "line_of entry item =
     (fst item = fst entry \<and>
      (if is_sentinel (snd entry) then snd item = snd entry
       else snd item = GREEN \<or> snd item = RED))"

section \<open>Credential hasher\<close>

lemmas test_defs = test_env_def always_def test_state_def init_def

text \<open>
  C8. For every nonce and every password, the credential hash is
  \<open>sha1(nonce || sha1(password || PUBLIC_KEY))\<close> for the fixed public constant. It is a
  function of these inputs alone, so equal inputs give the same digest, and it neither
  reads nor changes the session: the client is no argument of it and no result.
\<close>

theorem password_hash:
  "generate_password_hash e nonce password
     = sha1 e (nonce @ sha1 e (password @ CLIENT_PUBLIC_KEY e))
   \<and> sha1 e key = hashlib_sha1 e key"
  by (simp add: generate_password_hash_def sha1_def)

section \<open>Session manager\<close>

lemma py_contains_JObj: "py_contains k (JObj kvs) = Inr (map_of kvs k \<noteq> None)"
  by (simp add: map_of_eq_None_iff)

text \<open>
  C4, as amended. For every login attempt that the server answered with a body
  decoding to a JSON object: if the object has no \<open>token\<close> field or the status is not
  \<open>200\<close>, login fails with the token error and returns no value; if the object has a
  \<open>token\<close> and the status is exactly \<open>200\<close>, login stores that token, whatever token
  was held before, and returns the decoded payload.
\<close>

theorem login_answered:
  assumes "luci_password (self s) = Some pw"
    and "router e (sent s) (login_request e nonce (self s) pw) = Response st (Decoded (JObj kvs))"
  shows "(st \<noteq> 200 \<or> map_of kvs ''token'' = None
            \<longrightarrow> fst (login e nonce s) = Inl LuciTokenException)
       \<and> (st = 200 \<and> map_of kvs ''token'' = Some t
            \<longrightarrow> login e nonce s =
                  (Inr (JObj kvs),
                   s\<lparr>sent := sent s @ [login_request e nonce (self s) pw],
                     self := (self s)\<lparr>luci_token := t\<rparr>\<rparr>))"
  using assms
  by (auto simp: login_def send_def py_contains_JObj simp del: py_contains.simps)

text \<open>A client holding the token \<open>old\<close> logs in: an answer \<open>{"code": 401}\<close> is
  refused, an answer \<open>{"token": "abc"}\<close> replaces the token.\<close>

theorem login_answered_witness:
  "fst (login (test_env (always (Response 200 (Decoded (JObj [(''code'', JInt 401)])))))
          ''0_aa_1_2'' (test_state (JStr ''old''))) = Inl LuciTokenException
   \<and> login (test_env (always (Response 200 (Decoded (JObj [(''token'', JStr ''abc'')])))))
          ''0_aa_1_2'' (test_state (JStr ''old''))
       = (Inr (JObj [(''token'', JStr ''abc'')]),
          (test_state (JStr ''abc''))
            \<lparr>sent := [login_request
                        (test_env (always (Response 200 (Decoded (JObj [(''token'', JStr ''abc'')])))))
                        ''0_aa_1_2'' (self (test_state (JStr ''old''))) ''secret'']\<rparr>)"
proof -
  have p: "luci_password (self (test_state (JStr ''old''))) = Some ''secret''"
    by (simp add: test_defs)
  have r1: "router (test_env (always (Response 200 (Decoded (JObj [(''code'', JInt 401)])))))
              (sent (test_state (JStr ''old'')))
              (login_request (test_env (always (Response 200 (Decoded (JObj [(''code'', JInt 401)])))))
                 ''0_aa_1_2'' (self (test_state (JStr ''old''))) ''secret'')
            = Response 200 (Decoded (JObj [(''code'', JInt 401)]))"
    by (simp add: test_defs)
  have r2: "router (test_env (always (Response 200 (Decoded (JObj [(''token'', JStr ''abc'')])))))
              (sent (test_state (JStr ''old'')))
              (login_request (test_env (always (Response 200 (Decoded (JObj [(''token'', JStr ''abc'')])))))
                 ''0_aa_1_2'' (self (test_state (JStr ''old''))) ''secret'')
            = Response 200 (Decoded (JObj [(''token'', JStr ''abc'')]))"
    by (simp add: test_defs)
  from login_answered [OF p r1, of JNull] login_answered [OF p r2, of "JStr ''abc''"]
  show ?thesis
    by (simp add: test_defs)
qed

text \<open>C4 as stated fails for a success status other than \<open>200\<close>: the answer
  \<open>201\<close> with \<open>{"token": "abc"}\<close> is refused and no token is stored.\<close>

theorem login_success_status_counterexample:
  "fst (login (test_env (always (Response 201 (Decoded (JObj [(''token'', JStr ''abc'')])))))
          ''0_aa_1_2'' (test_state JNull)) = Inl LuciTokenException
   \<and> luci_token (self (snd (login
          (test_env (always (Response 201 (Decoded (JObj [(''token'', JStr ''abc'')])))))
          ''0_aa_1_2'' (test_state JNull)))) = JNull"
  by (simp add: login_def send_def login_request_def test_defs)

text \<open>
  C10. A login attempt that fails with the connection error or with the token error
  leaves the stored token as it was before the attempt: \<open>_token\<close> is written only
  after the status and token checks have passed.
\<close>
theorem login_failure_keeps_token:
  "fst (login e nonce s) = Inl x \<Longrightarrow> x = LuciConnectionException \<or> x = LuciTokenException
     \<Longrightarrow> luci_token (self (snd (login e nonce s))) = luci_token (self s)"
  by (auto simp: login_def send_def
      split: option.splits outcome.splits body.splits if_splits sum.splits bool.splits)

text \<open>A login over a transport that raises, by a client that holds the token \<open>old\<close>.\<close>

theorem login_failure_keeps_token_witness:
  "fst (login (test_env (always HTTPError)) ''0_aa_1_2'' (test_state (JStr ''old'')))
     = Inl LuciConnectionException
   \<and> luci_token (self (snd (login (test_env (always HTTPError)) ''0_aa_1_2''
         (test_state (JStr ''old''))))) = JStr ''old''"
proof -
  have h: "fst (login (test_env (always HTTPError)) ''0_aa_1_2'' (test_state (JStr ''old'')))
             = Inl LuciConnectionException"
    by (simp add: login_def send_def login_request_def test_defs)
  from login_failure_keeps_token [OF h] show ?thesis
    using h by (simp add: test_state_def)
qed

text \<open>
  C2, as amended. For every session state and every outcome of the remote logout call,
  logout returns without raising and leaves the stored token exactly as it was: a token
  that was held is still held afterwards, also when the remote call failed.
\<close>

theorem logout_returns_and_keeps_token:
  "fst (logout e s) = Inr () \<and> luci_token (self (snd (logout e s))) = luci_token (self s)"
  by (simp add: logout_def send_def split: outcome.splits)

text \<open>C2 as stated fails: after a logout whose remote call failed, the client that held
  \<open>abc\<close> still holds it.\<close>

theorem logout_clears_token_counterexample:
  "fst (logout (test_env (always HTTPError)) (test_state (JStr ''abc''))) = Inr ()
   \<and> luci_token (self (snd (logout (test_env (always HTTPError)) (test_state (JStr ''abc'')))))
       = JStr ''abc''
   \<and> JStr ''abc'' \<noteq> JNull"
  by (simp add: logout_def send_def logout_url_def py_format_def test_defs)

section \<open>Request dispatcher\<close>

text \<open>Every \<open>get\<close> sends one request, whatever comes back.\<close>

lemma get_sends_one:
  "sent (snd (get e path use_stok s))
     = sent s @ [GET (get_url e (self s) path use_stok) (luci_timeout (self s))]"
  by (auto simp: get_def send_def split: outcome.splits body.splits sum.splits bool.splits)

text \<open>
  C5. For every path and every token, \<open>get\<close> requests \<open>{base}/;stok={token}/api/{path}\<close>
  when \<open>use_stok\<close> is true, the token as Python formats it (a \<open>str\<close> token is
  itself), and \<open>{base}/api/{path}\<close> when it is false; the one request \<open>get\<close> sends
  goes to this URL.
\<close>

theorem get_url_shape:
  "get_url e c path True = luci_url c @ ''/;stok='' @ py_format e (luci_token c) @ ''/api/'' @ path
   \<and> get_url e (c\<lparr>luci_token := JStr t\<rparr>) path True = luci_url c @ ''/;stok='' @ t @ ''/api/'' @ path
   \<and> get_url e c path False = luci_url c @ ''/api/'' @ path
   \<and> sent (snd (get e path use_stok s))
       = sent s @ [GET (get_url e (self s) path use_stok) (luci_timeout (self s))]"
  by (auto simp: get_url_def get_def send_def py_format_def
      split: outcome.splits body.splits sum.splits bool.splits)

text \<open>The status request of a client holding \<open>abc\<close>, and the topology request,
  which goes without the token.\<close>

theorem get_url_shape_witness:
  "get_url (test_env (always HTTPError)) (self (test_state (JStr ''abc''))) ''misystem/status'' True
     = ''http://192.168.31.1/cgi-bin/luci/;stok=abc/api/misystem/status''
   \<and> get_url (test_env (always HTTPError)) (self (test_state (JStr ''abc''))) ''misystem/topo_graph''
       False
     = ''http://192.168.31.1/cgi-bin/luci/api/misystem/topo_graph''
   \<and> sent (snd (topo_graph (test_env (always HTTPError)) (test_state (JStr ''abc''))))
     = [GET ''http://192.168.31.1/cgi-bin/luci/api/misystem/topo_graph'' 5]"
  using get_url_shape [of "test_env (always HTTPError)" "self (test_state JNull)"
      "''misystem/status''" "''abc''" False "test_state (JStr ''abc'')"]
    get_url_shape [of "test_env (always HTTPError)" "self (test_state (JStr ''abc''))"
      "''misystem/topo_graph''" "''abc''" False "test_state (JStr ''abc'')"]
  by (simp add: test_defs topo_graph_def)

text \<open>
  C6, as amended. For every \<open>get\<close> with \<open>use_stok\<close> true while no token is held, the
  URL is \<open>{base}/;stok=None/api/{path}\<close>: the segment is there and carries the text
  \<open>None\<close>; and when the server's decoded reply is a rejection, \<open>get\<close> fails with the
  token error.
\<close>

theorem get_before_login:
  assumes "luci_token (self s) = JNull"
  shows "get_url e (self s) path True = luci_url (self s) @ ''/;stok=None/api/'' @ path
       \<and> (router e (sent s) (GET (luci_url (self s) @ ''/;stok=None/api/'' @ path)
                              (luci_timeout (self s))) = Response st (Decoded data)
            \<and> rejected data
            \<longrightarrow> fst (get e path True s) = Inl LuciTokenException)"
  using assms
  by (auto simp: get_url_def get_def send_def py_format_def rejected_def py_contains_JObj
      simp del: py_contains.simps split: json.splits option.splits)

text \<open>A fresh client asks for the status and the router answers
  \<open>{"code": 401}\<close>.\<close>

theorem get_before_login_witness:
  "luci_token (self (test_state JNull)) = JNull
   \<and> rejected (JObj [(''code'', JInt 401)])
   \<and> fst (get (test_env (always (Response 200 (Decoded (JObj [(''code'', JInt 401)])))))
            ''misystem/status'' True (test_state JNull)) = Inl LuciTokenException"
proof -
  have t: "luci_token (self (test_state JNull)) = JNull"
    by (simp add: test_defs)
  have r: "rejected (JObj [(''code'', JInt 401)])"
    by (simp add: rejected_def)
  have a: "router (test_env (always (Response 200 (Decoded (JObj [(''code'', JInt 401)])))))
             (sent (test_state JNull))
             (GET (luci_url (self (test_state JNull)) @ ''/;stok=None/api/'' @ ''misystem/status'')
                (luci_timeout (self (test_state JNull))))
           = Response 200 (Decoded (JObj [(''code'', JInt 401)]))"
    by (simp add: test_defs)
  from get_before_login [OF t, of _ "''misystem/status''"] t r a show ?thesis
    by blast
qed

text \<open>C6 as stated fails: the token part of the URL is not empty, it is the four
  letters \<open>None\<close>.\<close>

theorem get_before_login_url_counterexample:
  "luci_token (self (test_state JNull)) = JNull
   \<and> get_url (test_env (always HTTPError)) (self (test_state JNull)) ''misystem/status'' True
       = ''http://192.168.31.1/cgi-bin/luci/;stok=None/api/misystem/status''
   \<and> get_url (test_env (always HTTPError)) (self (test_state JNull)) ''misystem/status'' True
       \<noteq> ''http://192.168.31.1/cgi-bin/luci/;stok=/api/misystem/status''"
  by (simp add: get_url_def py_format_def test_defs)

text \<open>
  C7, as amended. For every response whose body decodes to a JSON object: without a
  \<open>code\<close> field, \<open>get\<close> fails with the token error; with a \<open>code\<close> that is a
  number, \<open>get\<close> fails with the token error if the number is greater than \<open>0\<close> and
  returns the decoded body unchanged otherwise.
\<close>

theorem get_decoded_object:
  assumes "router e (sent s) (GET (get_url e (self s) path use_stok) (luci_timeout (self s)))
             = Response st (Decoded (JObj kvs))"
  shows "(map_of kvs ''code'' = None \<longrightarrow> fst (get e path use_stok s) = Inl LuciTokenException)
       \<and> (map_of kvs ''code'' = Some c \<and> is_number c
            \<longrightarrow> fst (get e path use_stok s)
                 = (if py_gt0 c = Inr True then Inl LuciTokenException else Inr (JObj kvs)))"
  using assms
  by (auto simp: get_def send_def is_number_def py_contains_JObj
      simp del: py_contains.simps split: json.splits)

text \<open>The answer \<open>{"code": 0}\<close> to a status request is returned as it is.\<close>

theorem get_decoded_object_witness:
  "is_number (JInt 0)
   \<and> fst (get (test_env (always (Response 200 (Decoded ok_body)))) ''misystem/status'' True
            (test_state (JStr ''tok''))) = Inr ok_body"
proof -
  have a: "router (test_env (always (Response 200 (Decoded ok_body))))
             (sent (test_state (JStr ''tok'')))
             (GET (get_url (test_env (always (Response 200 (Decoded ok_body))))
                     (self (test_state (JStr ''tok''))) ''misystem/status'' True)
                (luci_timeout (self (test_state (JStr ''tok'')))))
           = Response 200 (Decoded (JObj [(''code'', JInt 0)]))"
    by (simp add: test_defs ok_body_def)
  have n: "is_number (JInt 0)"
    by (simp add: is_number_def)
  from get_decoded_object [OF a, of "JInt 0"] n show ?thesis
    by (simp add: ok_body_def)
qed

text \<open>C7 as stated fails for a \<open>code\<close> that is no number: on \<open>{"code": "0"}\<close> the
  comparison with \<open>0\<close> raises \<open>TypeError\<close>, which is neither outcome of the claim.\<close>

theorem get_code_not_a_number_counterexample:
  "fst (get (test_env (always (Response 200 (Decoded (JObj [(''code'', JStr ''0'')])))))
          ''misystem/status'' True (test_state (JStr ''abc''))) = Inl TypeError"
  by (simp add: get_def send_def test_defs)

text \<open>
  C3, at the failing input. The router answers a status request with a body that is
  not JSON: \<open>get\<close> raises \<open>JSONDecodeError\<close>, not the connection error, since the
  handler around \<open>json.loads\<close> catches \<open>HTTPError\<close> only.
\<close>

theorem get_malformed_body:
  "fst (get (test_env (always (Response 200 Malformed))) ''misystem/status'' True
          (test_state (JStr ''abc''))) = Inl JSONDecodeError
   \<and> Inl JSONDecodeError \<noteq> (Inl LuciConnectionException :: exn + json)"
  by (simp add: get_def send_def test_defs)

section \<open>Capability sweep\<close>

lemma sentinel_simps:
  "is_sentinel GREEN" "is_sentinel RED" "is_sentinel WHITE"
  "\<not> is_sentinel ''status''" "\<not> is_sentinel ''mode''" "\<not> is_sentinel ''topo_graph''"
  "\<not> is_sentinel ''rom_update''"
  by (simp_all add: is_sentinel_def GREEN_def RED_def WHITE_def)

lemma line_of_pair:
  "line_of (code, method) (k, v) =
     (k = code \<and> (if is_sentinel method then v = method else v = GREEN \<or> v = RED))"
  by (simp add: line_of_def)

lemma dict_set_new: "k \<notin> set (map fst d) \<Longrightarrow> dict_set k v d = d @ [(k, v)]"
  by (induction d) auto

text \<open>One turn of the loop. A sentinel entry is recorded as it is and the state, so the
  list of requests sent, stays the same.\<close>

lemma loop_sentinel:
  "is_sentinel method \<Longrightarrow>
     self_check_loop client ((code, method) # rest) data s
       = self_check_loop client rest (dict_set code method data) s"
  by simp

text \<open>A probeable entry whose method the client defines is awaited once: its return
  records the Supported mark, a \<open>LuciError\<close> the Unsupported mark, and any other
  exception leaves the sweep.\<close>

lemma loop_call:
  assumes "\<not> is_sentinel method" and "client method = Some (Coroutine action)"
  shows "self_check_loop client ((code, method) # rest) data s =
           (case fst (action s) of
              Inr r \<Rightarrow> self_check_loop client rest (dict_set code GREEN data) (snd (action s))
            | Inl x \<Rightarrow>
                if is_LuciError x
                then self_check_loop client rest (dict_set code RED data) (snd (action s))
                else (Inl x, snd (action s)))"
  using assms by (cases "action s") (simp split: sum.splits)

lemma loop_general:
  assumes "distinct (map fst catalog)"
    and "set (map fst catalog) \<inter> set (map fst data0) = {}"
    and "\<forall>name \<in> set (probeable catalog). \<exists>action. client name = Some (Coroutine action)
           \<and> (\<forall>s x. fst (action s) = Inl x \<longrightarrow> is_LuciError x)"
  shows "\<exists>data. self_check_loop client catalog data0 s
                  = (Inr (data0 @ data), foldl (call client) s (probeable catalog))
               \<and> list_all2 line_of catalog data"
  using assms
proof (induction catalog arbitrary: data0 s)
  case Nil
  then show ?case by (simp add: probeable_def)
next
  case (Cons entry rest)
  obtain code name where entry: "entry = (code, name)" by (cases entry)
  from Cons.prems entry have fresh: "code \<notin> set (map fst data0)" by auto
  from Cons.prems entry have d: "distinct (map fst rest)" and nin: "code \<notin> set (map fst rest)"
    by auto
  have disj: "set (map fst rest) \<inter> set (map fst (data0 @ [(code, v)])) = {}" for v
    using Cons.prems(2) nin entry by auto
  show ?case
  proof (cases "is_sentinel name")
    case True
    then have pr: "probeable (entry # rest) = probeable rest"
      by (simp add: probeable_def entry)
    with Cons.prems(3)
    have res: "\<forall>m \<in> set (probeable rest). \<exists>action. client m = Some (Coroutine action)
                 \<and> (\<forall>s x. fst (action s) = Inl x \<longrightarrow> is_LuciError x)"
      by simp
    from Cons.IH [OF d disj res, of name s] obtain data where
      "self_check_loop client rest (data0 @ [(code, name)]) s
         = (Inr ((data0 @ [(code, name)]) @ data), foldl (call client) s (probeable rest))"
      and "list_all2 line_of rest data" by blast
    with True fresh pr show ?thesis
      by (intro exI [of _ "(code, name) # data"])
         (simp add: entry dict_set_new line_of_pair)
  next
    case False
    then have pr: "probeable (entry # rest) = name # probeable rest"
      by (simp add: probeable_def entry)
    with Cons.prems(3) obtain action where act: "client name = Some (Coroutine action)"
      and luci: "\<And>x. fst (action s) = Inl x \<Longrightarrow> is_LuciError x"
      and res: "\<forall>m \<in> set (probeable rest). \<exists>action. client m = Some (Coroutine action)
                  \<and> (\<forall>s x. fst (action s) = Inl x \<longrightarrow> is_LuciError x)"
      by auto
    have c: "call client s name = snd (action s)"
      by (simp add: call_def act)
    note step = loop_call [of name client action code rest, OF False act]
    show ?thesis
    proof (cases "fst (action s)")
      case (Inr r)
      from Cons.IH [OF d disj res, of GREEN "snd (action s)"] obtain data where
        "self_check_loop client rest (data0 @ [(code, GREEN)]) (snd (action s))
           = (Inr ((data0 @ [(code, GREEN)]) @ data),
              foldl (call client) (snd (action s)) (probeable rest))"
        and "list_all2 line_of rest data" by blast
      with False fresh pr c Inr show ?thesis
        by (intro exI [of _ "(code, GREEN) # data"])
           (simp add: entry step dict_set_new line_of_pair del: self_check_loop.simps)
    next
      case (Inl x)
      with luci have l: "is_LuciError x" by blast
      from Cons.IH [OF d disj res, of RED "snd (action s)"] obtain data where
        "self_check_loop client rest (data0 @ [(code, RED)]) (snd (action s))
           = (Inr ((data0 @ [(code, RED)]) @ data),
              foldl (call client) (snd (action s)) (probeable rest))"
        and "list_all2 line_of rest data" by blast
      with False fresh pr c Inl l show ?thesis
        by (intro exI [of _ "(code, RED) # data"])
           (simp add: entry step dict_set_new line_of_pair del: self_check_loop.simps)
    qed
  qed
qed

lemma check_list_lines:
  "list_all2 line_of catalog data \<Longrightarrow>
     check_list data = ''Check list:'' @
       concat (map (\<lambda>(entry, item). ''\<newline> * '' @ fst entry @ '': '' @ snd item) (zip catalog data))"
  unfolding check_list_def
  by (induction catalog data rule: list_all2_induct) (auto simp: line_of_def)

text \<open>
  The sweep where it runs to its end. For a catalog whose paths are pairwise distinct and
  whose probeable entries each name a coroutine method that the client defines and that
  raises nothing but \<open>LuciError\<close>s: the sweep ends in the state that awaiting the
  methods of the probeable entries leaves, once each and one after the other in catalog
  order, every call started in the state the call before it returned; and the check-list
  has one line per entry, in catalog order, with the entry's path and its mark.
\<close>

lemma sweep_in_order:
  assumes "distinct (map fst catalog)"
    and "\<forall>name \<in> set (probeable catalog). \<exists>action. client name = Some (Coroutine action)
           \<and> (\<forall>s x. fst (action s) = Inl x \<longrightarrow> is_LuciError x)"
  shows "\<exists>data. self_check_loop client catalog [] s
                  = (Inr data, foldl (call client) s (probeable catalog))
               \<and> list_all2 line_of catalog data
               \<and> check_list data = ''Check list:'' @
                   concat (map (\<lambda>(entry, item). ''\<newline> * '' @ fst entry @ '': '' @ snd item)
                             (zip catalog data))"
proof -
  from loop_general [OF assms(1) _ assms(2), of "[]" s] obtain data where
    "self_check_loop client catalog [] s = (Inr data, foldl (call client) s (probeable catalog))"
    and "list_all2 line_of catalog data" by auto
  then show ?thesis using check_list_lines by blast
qed

lemma get_raises:
  "fst (get e path use_stok s) = Inl x \<Longrightarrow>
     (router e (sent s) (GET (get_url e (self s) path use_stok) (luci_timeout (self s))) = HTTPError
        \<and> x = LuciConnectionException)
     \<or> (\<exists>st b. router e (sent s) (GET (get_url e (self s) path use_stok) (luci_timeout (self s)))
           = Response st b \<and> b \<noteq> Decoded ok_body)"
  by (auto simp: get_def send_def ok_body_def split: outcome.splits body.splits)

lemma mode_down_only_luci_errors:
  "fst (get (test_env mode_down) path use_stok s) = Inl x \<Longrightarrow> is_LuciError x"
  by (drule get_raises) (auto simp: test_env_def mode_down_def is_LuciError_def split: if_splits)

text \<open>The sweep of \<open>short_catalog\<close> by a client holding the token \<open>tok\<close>, against
  the router \<open>mode_down\<close>: three requests in catalog order and five lines.\<close>

lemma sweep_short_catalog:
  "distinct (map fst short_catalog)
   \<and> (\<exists>data. self_check_loop (LuciClient_getattr (test_env mode_down)) short_catalog []
                 (test_state (JStr ''tok''))
               = (Inr data,
                  foldl (call (LuciClient_getattr (test_env mode_down))) (test_state (JStr ''tok''))
                    (probeable short_catalog))
             \<and> list_all2 line_of short_catalog data
             \<and> check_list data = ''Check list:'' @
                 concat (map (\<lambda>(entry, item). ''\<newline> * '' @ fst entry @ '': '' @ snd item)
                           (zip short_catalog data)))
   \<and> self_check_loop (LuciClient_getattr (test_env mode_down)) short_catalog []
         (test_state (JStr ''tok''))
       = (Inr [(''xqsystem/login'', GREEN),
               (''misystem/status'', GREEN),
               (''xqnetwork/mode'', RED),
               (''misystem/topo_graph'', GREEN),
               (''xqsystem/reboot'', WHITE)],
          (test_state (JStr ''tok''))
            \<lparr>sent := [GET ''http://192.168.31.1/cgi-bin/luci/;stok=tok/api/misystem/status'' 5,
                      GET ''http://192.168.31.1/cgi-bin/luci/;stok=tok/api/xqnetwork/mode'' 5,
                      GET ''http://192.168.31.1/cgi-bin/luci/api/misystem/topo_graph'' 5]\<rparr>)"
proof -
  have d: "distinct (map fst short_catalog)"
    by (simp add: short_catalog_def)
  have p: "probeable short_catalog = [''status'', ''mode'', ''topo_graph'']"
    by (simp add: probeable_def short_catalog_def sentinel_simps)
  have r: "\<forall>name \<in> set (probeable short_catalog).
             \<exists>action. LuciClient_getattr (test_env mode_down) name = Some (Coroutine action)
               \<and> (\<forall>s x. fst (action s) = Inl x \<longrightarrow> is_LuciError x)"
    using mode_down_only_luci_errors
    by (simp add: p LuciClient_getattr_def status_def mode_def topo_graph_def)
  have run: "self_check_loop (LuciClient_getattr (test_env mode_down)) short_catalog []
               (test_state (JStr ''tok''))
             = (Inr [(''xqsystem/login'', GREEN),
                     (''misystem/status'', GREEN),
                     (''xqnetwork/mode'', RED),
                     (''misystem/topo_graph'', GREEN),
                     (''xqsystem/reboot'', WHITE)],
                (test_state (JStr ''tok''))
                  \<lparr>sent := [GET ''http://192.168.31.1/cgi-bin/luci/;stok=tok/api/misystem/status'' 5,
                            GET ''http://192.168.31.1/cgi-bin/luci/;stok=tok/api/xqnetwork/mode'' 5,
                            GET ''http://192.168.31.1/cgi-bin/luci/api/misystem/topo_graph'' 5]\<rparr>)"
    by (simp add: short_catalog_def sentinel_simps LuciClient_getattr_def status_def mode_def
        topo_graph_def get_def get_url_def send_def py_format_def test_defs mode_down_def
        ok_body_def is_LuciError_def)
  from sweep_in_order [OF d r] d run show ?thesis by blast
qed

text \<open>
  C9, at the failing input. The sixth entry of \<open>SELF_CHECK_METHODS\<close> is probeable and
  names \<open>rom_update\<close>, which \<open>LuciClient\<close> does not define: the sweep awaits no call
  and records no mark for it, \<open>getattr\<close> raises \<open>AttributeError\<close> out of the sweep, and
  the entries after it are never reached.
\<close>

theorem sweep_missing_method:
  "(''xqsystem/check_rom_update'', ''rom_update'') \<in> set SELF_CHECK_METHODS
   \<and> \<not> is_sentinel ''rom_update''
   \<and> LuciClient_getattr e ''rom_update'' = None
   \<and> self_check_loop (LuciClient_getattr e)
         ((''xqsystem/check_rom_update'', ''rom_update'') # rest) data s = (Inl AttributeError, s)"
  by (simp add: sentinel_simps LuciClient_getattr_def SELF_CHECK_METHODS_def)

text \<open>Each method of \<open>LuciClient\<close> that the sweep can await is one \<open>get\<close>, so a
  sweep by a \<open>LuciClient\<close> that runs to its end has sent one request per probeable
  entry.\<close>

lemma LuciClient_actions:
  "LuciClient_getattr e name = Some (Coroutine action)
     \<Longrightarrow> \<exists>path use_stok. action = get e path use_stok"
  unfolding LuciClient_getattr_def
  by (auto simp: topo_graph_def init_info_def status_def new_status_def mode_def wifi_status_def
      wifi_detail_all_def wan_info_def reboot_def led_def device_list_def wifi_connect_devices_def
      split: if_splits)

lemma LuciClient_calls_send_one_each:
  "\<forall>name \<in> set names. \<exists>action. LuciClient_getattr e name = Some (Coroutine action) \<Longrightarrow>
     length (sent (foldl (call (LuciClient_getattr e)) s names)) = length (sent s) + length names"
proof (induction names arbitrary: s)
  case Nil
  then show ?case by simp
next
  case (Cons name names)
  then obtain action where a: "LuciClient_getattr e name = Some (Coroutine action)"
    by auto
  then obtain path use_stok where "action = get e path use_stok"
    using LuciClient_actions by blast
  with a have "length (sent (call (LuciClient_getattr e) s name)) = Suc (length (sent s))"
    by (simp add: call_def get_sends_one)
  with Cons show ?case by simp
qed

lemma sweep_request_count:
  assumes "distinct (map fst catalog)"
    and "\<forall>name \<in> set (probeable catalog).
           \<exists>action. LuciClient_getattr e name = Some (Coroutine action)
             \<and> (\<forall>s x. fst (action s) = Inl x \<longrightarrow> is_LuciError x)"
  shows "length (sent (snd (self_check_loop (LuciClient_getattr e) catalog [] s)))
           = length (sent s) + length (probeable catalog)"
proof -
  from loop_general [OF assms(1) _ assms(2), of "[]" s] obtain data where
    "self_check_loop (LuciClient_getattr e) catalog [] s
       = (Inr data, foldl (call (LuciClient_getattr e)) s (probeable catalog))"
    by auto
  moreover from assms(2)
  have "\<forall>name \<in> set (probeable catalog).
          \<exists>action. LuciClient_getattr e name = Some (Coroutine action)"
    by blast
  ultimately show ?thesis
    by (simp add: LuciClient_calls_send_one_each)
qed

text \<open>The paths of \<open>SELF_CHECK_METHODS\<close> are pairwise distinct, and thirteen of its
  twenty entries are probeable.\<close>

lemma SELF_CHECK_METHODS_distinct: "distinct (map fst SELF_CHECK_METHODS)"
  by (simp add: SELF_CHECK_METHODS_def)

lemma SELF_CHECK_METHODS_probeable:
  "probeable SELF_CHECK_METHODS =
     [''status'', ''mode'', ''topo_graph'', ''rom_update'', ''wan_info'', ''led'',
      ''wifi_detail_all'', ''wifi_diag_detail_all'', ''avaliable_channels'',
      ''wifi_connect_devices'', ''device_list'', ''wifi_ap_signal'', ''new_status'']"
  by (simp add: probeable_def SELF_CHECK_METHODS_def is_sentinel_def GREEN_def RED_def WHITE_def)

text \<open>After the loop, the title reads \<open>client.ip\<close>. With that attribute the message
  goes to the notifications; \<open>LuciClient\<close> keeps its address in \<open>_ip\<close> and defines no
  \<open>ip\<close>.\<close>

lemma self_check_reports:
  assumes "self_check_loop client catalog [] s = (Inr data, s')"
    and "client_ip e client = Inr ip"
  shows "self_check e client catalog model s =
           (Inr (), s'\<lparr>notifications := notifications s' @ [(report e ip model data, NAME e)]\<rparr>)"
  using assms by (simp add: self_check_def)

lemma LuciClient_has_no_ip: "client_ip e (LuciClient_getattr e) = Inl AttributeError"
  by (simp add: client_ip_def LuciClient_getattr_def)

text \<open>
  C1, at the failing input. \<open>async_self_check\<close> by a \<open>LuciClient\<close> holding the
  token \<open>tok\<close>, against a router that accepts every request: of the thirteen probeable
  entries of \<open>SELF_CHECK_METHODS\<close> only the first three are called, then \<open>getattr\<close>
  raises \<open>AttributeError\<close> at \<open>rom_update\<close> and nothing is rendered or notified.
  Whatever the router answers, \<open>async_self_check\<close> by a \<open>LuciClient\<close> never returns:
  the loop needs the four methods and the title needs the \<open>ip\<close> that the class does
  not define.
\<close>

theorem async_self_check_stops_at_rom_update:
  "async_self_check (test_env (always (Response 200 (Decoded ok_body))))
     (LuciClient_getattr (test_env (always (Response 200 (Decoded ok_body)))))
     ''R3600'' (test_state (JStr ''tok''))
   = (Inl AttributeError,
      (test_state (JStr ''tok''))
        \<lparr>sent := [GET ''http://192.168.31.1/cgi-bin/luci/;stok=tok/api/misystem/status'' 5,
                  GET ''http://192.168.31.1/cgi-bin/luci/;stok=tok/api/xqnetwork/mode'' 5,
                  GET ''http://192.168.31.1/cgi-bin/luci/api/misystem/topo_graph'' 5]\<rparr>)
   \<and> length (probeable SELF_CHECK_METHODS) = 13
   \<and> fst (async_self_check e (LuciClient_getattr e) model s) \<noteq> Inr ()"
proof -
  have run: "async_self_check (test_env (always (Response 200 (Decoded ok_body))))
     (LuciClient_getattr (test_env (always (Response 200 (Decoded ok_body)))))
     ''R3600'' (test_state (JStr ''tok''))
   = (Inl AttributeError,
      (test_state (JStr ''tok''))
        \<lparr>sent := [GET ''http://192.168.31.1/cgi-bin/luci/;stok=tok/api/misystem/status'' 5,
                  GET ''http://192.168.31.1/cgi-bin/luci/;stok=tok/api/xqnetwork/mode'' 5,
                  GET ''http://192.168.31.1/cgi-bin/luci/api/misystem/topo_graph'' 5]\<rparr>)"
    by (simp add: async_self_check_def self_check_def SELF_CHECK_METHODS_def sentinel_simps
        LuciClient_getattr_def status_def mode_def topo_graph_def
        get_def get_url_def send_def py_format_def test_defs ok_body_def)
  have count: "length (probeable SELF_CHECK_METHODS) = 13"
    by (simp add: SELF_CHECK_METHODS_probeable)
  have never: "fst (async_self_check e (LuciClient_getattr e) model s) \<noteq> Inr ()"
    by (simp add: async_self_check_def self_check_def LuciClient_has_no_ip
        split: prod.splits sum.splits)
  from run count never show ?thesis by blast
qed

end
